theory Spec2Isabelle
  imports Complex_Main
begin

section \<open>Arrays, errors and physical constants\<close>

text \<open>
  The program (\<^verbatim>\<open>Week 2/model2_1.py\<close>) works on numpy arrays of floats and complex
  floats. Here a 2-D array is a list of rows, a float is a real number and a complex float is a
  complex number: the arithmetic is exact, rounding of floating point is not part of the model.
  Every exception the program can raise is a value of \<open>error\<close>.
\<close>

type_synonym 'a mat = "'a list list"

datatype error = LinAlgError | ValueError | IndexError | OverflowError

definition nrows :: "'a mat \<Rightarrow> nat" where
  "nrows A = length A"

definition ncols :: "'a mat \<Rightarrow> nat" where
  "ncols A = (case A of [] \<Rightarrow> 0 | r # _ \<Rightarrow> length r)"

text \<open>A list of rows is an array of shape \<open>(r, c)\<close> when it has \<open>r\<close> rows of length \<open>c\<close>.\<close>

definition is_mat :: "nat \<Rightarrow> nat \<Rightarrow> 'a mat \<Rightarrow> bool" where
  "is_mat r c A = (length A = r \<and> list_all (\<lambda>row. length row = c) A)"

definition mk_mat :: "nat \<Rightarrow> nat \<Rightarrow> (nat \<Rightarrow> nat \<Rightarrow> 'a) \<Rightarrow> 'a mat" where
  "mk_mat r c f = map (\<lambda>i. map (f i) [0..<c]) [0..<r]"

text \<open>\<^verbatim>\<open>scipy.constants.hbar\<close> is \<^verbatim>\<open>h / (2 * pi)\<close> with the exact SI value of \<open>h\<close>.\<close>

definition hbar :: real where
  "hbar = 6.62607015 / 10 ^ 34 / (2 * pi)"

text \<open>\<^verbatim>\<open>np.round\<close> rounds to the nearest integer, a tie to the even neighbour.\<close>

definition np_round :: "real \<Rightarrow> int" where
  "np_round x =
     (let f = \<lfloor>x\<rfloor>; d = x - of_int f
      in if d < 1 / 2 then f else if 1 / 2 < d then f + 1 else if even f then f else f + 1)"

subsection \<open>Elementwise operations and broadcasting of a scalar\<close>

definition smul :: "'a::times \<Rightarrow> 'a mat \<Rightarrow> 'a mat" where
  "smul c A = map (map ((*) c)) A"

definition sdiv :: "'a::inverse mat \<Rightarrow> 'a \<Rightarrow> 'a mat" where
  "sdiv A c = map (map (\<lambda>x. x / c)) A"

definition sadd :: "'a::plus \<Rightarrow> 'a mat \<Rightarrow> 'a mat" where
  "sadd c A = map (map ((+) c)) A"

definition madd :: "'a::plus mat \<Rightarrow> 'a mat \<Rightarrow> 'a mat" where
  "madd A B = map2 (map2 (+)) A B"

definition msub :: "'a::minus mat \<Rightarrow> 'a mat \<Rightarrow> 'a mat" where
  "msub A B = map2 (map2 (-)) A B"

definition mabs :: "complex mat \<Rightarrow> real mat" where
  "mabs A = map (map cmod) A"

definition mabs_r :: "real mat \<Rightarrow> real mat" where
  "mabs_r A = map (map abs) A"

definition msq :: "real mat \<Rightarrow> real mat" where
  "msq A = map (map (\<lambda>x. x ^ 2)) A"

text \<open>\<^verbatim>\<open>a.T\<close>\<close>

definition mT :: "'a mat \<Rightarrow> 'a mat" where
  "mT A = mk_mat (ncols A) (nrows A) (\<lambda>i j. A ! j ! i)"

text \<open>\<^verbatim>\<open>np.tile(v, (N, 1))\<close>: \<open>N\<close> rows, each the vector \<open>v\<close>.\<close>

definition tile :: "'a list \<Rightarrow> nat \<Rightarrow> 'a mat" where
  "tile v N = replicate N v"

text \<open>
  \<^verbatim>\<open>a @ b\<close> on 2-D arrays: numpy raises \<^verbatim>\<open>ValueError\<close> when the inner dimensions differ.
\<close>

definition matmul :: "complex mat \<Rightarrow> complex mat \<Rightarrow> error + complex mat" where
  "matmul A B =
     (if ncols A \<noteq> nrows B then Inl ValueError
      else Inr (mk_mat (nrows A) (ncols B)
                  (\<lambda>i j. sum_list (map (\<lambda>k. A ! i ! k * B ! k ! j) [0..<ncols A]))))"

text \<open>\<^verbatim>\<open>a @ b @ c\<close> associates to the left; the first failing product raises.\<close>

definition matmul3 :: "complex mat \<Rightarrow> complex mat \<Rightarrow> complex mat \<Rightarrow> error + complex mat" where
  "matmul3 A B C = (case matmul A B of Inl e \<Rightarrow> Inl e | Inr P \<Rightarrow> matmul P C)"

text \<open>
  \<^verbatim>\<open>np.kron(a, b)\<close>: the block matrix whose block \<open>(i, j)\<close> is \<open>a[i, j] * b\<close>.
\<close>

definition kron :: "complex mat \<Rightarrow> complex mat \<Rightarrow> complex mat" where
  "kron A B =
     mk_mat (nrows A * nrows B) (ncols A * ncols B)
       (\<lambda>i j. A ! (i div nrows B) ! (j div ncols B) * B ! (i mod nrows B) ! (j mod ncols B))"

section \<open>The module-level functions and constants\<close>

text \<open>\<^verbatim>\<open>def adj(a): return a.conj().T\<close>\<close>

definition adj :: "complex mat \<Rightarrow> complex mat" where
  "adj a = mT (map (map cnj) a)"

text \<open>A square array of dimension \<open>n\<close> that equals its own adjoint.\<close>

definition is_hermitian :: "nat \<Rightarrow> complex mat \<Rightarrow> bool" where
  "is_hermitian n A = (is_mat n n A \<and> adj A = A)"

text \<open>
  \<^verbatim>\<open>def tp(*args)\<close>: starts from \<^verbatim>\<open>args[0]\<close> and multiplies the remaining arguments on
  from the left to the right. Every call of the program passes a first argument, which is the
  first parameter here; the others are the list.
\<close>

definition tp :: "complex mat \<Rightarrow> complex mat list \<Rightarrow> complex mat" where
  "tp a ts = foldl kron a ts"

definition I2 :: "complex mat" where
  "I2 = [[1, 0], [0, 1]]"

definition sigma_x :: "complex mat" where
  "sigma_x = [[0, 1], [1, 0]]"

definition sigma_z :: "complex mat" where
  "sigma_z = [[1, 0], [0, - 1]]"

text \<open>\<open>S\<close> is the array of the three spin operators, each scaled by \<open>hbar / 2\<close>.\<close>

definition S :: "complex mat list" where
  "S = map (smul (complex_of_real (hbar / 2)))
         [ [[0, 1], [1, 0]],
           [[0, - \<i>], [\<i>, 0]],
           [[1, 0], [0, - 1]] ]"

text \<open>
  \<^verbatim>\<open>sum(generator)\<close> starts from the integer \<open>0\<close>; adding the first array to it broadcasts
  the scalar. The generators of the program are never empty.
\<close>

definition py_sum :: "complex mat list \<Rightarrow> complex mat" where
  "py_sum xs = (case xs of [] \<Rightarrow> [] | x # rest \<Rightarrow> foldl madd (sadd 0 x) rest)"

text \<open>
  The Hamiltonian of the program for three particles, for a vector \<open>Sv\<close> of three spin
  operators and the coupling constant \<open>c\<close>:
  \<^verbatim>\<open>C*(sum(tp(S[i], S[i], I) for i in range(3)) - 3*tp(S[2], S[2], I)
     + sum(tp(S[i], I, S[i]) for i in range(3)) - 3*tp(S[2], I, S[2]))\<close>
\<close>

definition H_builder :: "complex \<Rightarrow> complex mat list \<Rightarrow> complex mat" where
  "H_builder c Sv =
     smul c
       (msub
          (madd
             (msub (py_sum (map (\<lambda>i. tp (Sv ! i) [Sv ! i, I2]) [0..<3]))
                   (smul 3 (tp (Sv ! 2) [Sv ! 2, I2])))
             (py_sum (map (\<lambda>i. tp (Sv ! i) [I2, Sv ! i]) [0..<3])))
          (smul 3 (tp (Sv ! 2) [I2, Sv ! 2])))"

text \<open>
  The coupling constant \<open>C\<close> of the program is a product of positive floats (one of them
  \<^verbatim>\<open>scipy.constants.mu_0\<close>): a real number, taken here as the parameter \<open>c\<close>.
\<close>

definition H :: "real \<Rightarrow> complex mat" where
  "H c = H_builder (complex_of_real c) S"

section \<open>The eigensolver\<close>

text \<open>
  \<^verbatim>\<open>numpy.linalg.eigh\<close> is a library function and a parameter of the model. What its
  documentation promises for a 2-D array: \<^verbatim>\<open>LinAlgError\<close> unless the array is square;
  otherwise the eigenvalues in ascending order and a matrix whose columns are orthonormal
  eigenvectors. It reads the lower triangle of its argument only (\<^verbatim>\<open>UPLO='L'\<close>) and the real
  part of the diagonal, and checks nothing about the upper triangle.
\<close>

definition lower_herm :: "complex mat \<Rightarrow> complex mat" where
  "lower_herm A =
     mk_mat (nrows A) (nrows A)
       (\<lambda>i j. if j < i then A ! i ! j
               else if i = j then complex_of_real (Re (A ! i ! i))
               else cnj (A ! j ! i))"

definition diag :: "real list \<Rightarrow> complex mat" where
  "diag es = mk_mat (length es) (length es) (\<lambda>i j. if i = j then complex_of_real (es ! i) else 0)"

definition eigh_contract :: "complex mat \<Rightarrow> error + real list \<times> complex mat \<Rightarrow> bool" where
  "eigh_contract A r =
     (if is_mat (nrows A) (nrows A) A
      then (case r of
              Inl e \<Rightarrow> False
            | Inr (es, Mv) \<Rightarrow>
                length es = nrows A \<and> is_mat (nrows A) (nrows A) Mv \<and> sorted es \<and>
                matmul (lower_herm A) Mv = matmul Mv (diag es) \<and>
                matmul (adj Mv) Mv = Inr (diag (replicate (nrows A) 1)))
      else r = Inl LinAlgError)"

section \<open>The class \<open>Model\<close>\<close>

record Model =
  energies :: "real list"
  M :: "complex mat"
  transition_amplitude_matrix :: "real mat"
  rounded_frequencies :: "int list"

text \<open>
  \<^verbatim>\<open>Model.__init__(self, H, particle_count)\<close>. \<^verbatim>\<open>[I]*(particle_count-1)\<close> is the empty list
  when the count is below \<open>2\<close>, and \<^verbatim>\<open>2**particle_count\<close> is a float when the count is
  negative. The constructor has no check of its own: it fails where \<^verbatim>\<open>eigh\<close> or a matrix
  product raises.
\<close>

definition Model_init ::
  "(complex mat \<Rightarrow> error + real list \<times> complex mat) \<Rightarrow> complex mat \<Rightarrow> int \<Rightarrow> error + Model" where
  "Model_init eigh Hm particle_count =
     (case eigh Hm of
        Inl e \<Rightarrow> Inl e
      | Inr (es, Mv) \<Rightarrow>
          (case matmul3 (adj Mv) (tp sigma_x (replicate (nat (particle_count - 1)) I2)) Mv of
             Inl e \<Rightarrow> Inl e
           | Inr X \<Rightarrow>
               (case matmul3 (adj Mv) (tp sigma_z (replicate (nat (particle_count - 1)) I2)) Mv of
                  Inl e \<Rightarrow> Inl e
                | Inr Z \<Rightarrow>
                    Inr \<lparr> energies = es,
                          M = Mv,
                          transition_amplitude_matrix =
                            sdiv (sdiv (madd (smul 2 (msq (mabs X))) (msq (mabs Z))) 3)
                                 (2 powi particle_count),
                          rounded_frequencies = map (\<lambda>e. np_round (e / hbar)) es \<rparr>)))"

text \<open>
  \<^verbatim>\<open>particle_count = int(np.log2(len(self.energies)))\<close> in \<^verbatim>\<open>print_details\<close>:
  \<^verbatim>\<open>int\<close> truncates, and raises \<^verbatim>\<open>OverflowError\<close> on the \<open>-inf\<close> that \<^verbatim>\<open>np.log2(0)\<close> is.
\<close>

definition print_details_particle_count :: "Model \<Rightarrow> error + int" where
  "print_details_particle_count m =
     (let N = length (energies m)
      in if N = 0 then Inl OverflowError else Inr \<lfloor>log 2 (real N)\<rfloor>)"

text \<open>\<^verbatim>\<open>for i in range(N) for j in range(N)\<close>\<close>

definition index_pairs :: "nat \<Rightarrow> (nat \<times> nat) list" where
  "index_pairs N = concat (map (\<lambda>i. map (\<lambda>j. (i, j)) [0..<N]) [0..<N])"

text \<open>\<^verbatim>\<open>a[i, j]\<close> raises \<^verbatim>\<open>IndexError\<close> unless both indices are inside the shape.\<close>

definition in_range2 :: "'a mat \<Rightarrow> nat \<times> nat \<Rightarrow> bool" where
  "in_range2 A p = (fst p < nrows A \<and> snd p < ncols A)"

definition frequency_matrix :: "real list \<Rightarrow> real mat" where
  "frequency_matrix es =
     (let N = length es
      in sdiv (mabs_r (msub (mT (tile es N)) (tile es N))) hbar)"

text \<open>
  \<^verbatim>\<open>Model.polarisation(self, ts)\<close> at one time \<open>t\<close> (numpy applies it to every element of an
  array \<^verbatim>\<open>ts\<close>). \<^verbatim>\<open>sum\<close> adds the terms to \<open>0\<close> in the order of the generator; a read of the
  amplitude matrix outside its shape raises.
\<close>

definition polarisation :: "Model \<Rightarrow> real \<Rightarrow> error + real" where
  "polarisation m t =
     (let N = length (energies m);
          fm = frequency_matrix (energies m);
          A = transition_amplitude_matrix m
      in if list_all (in_range2 A) (index_pairs N)
         then Inr (foldl (+) 0 (map (\<lambda>(i, j). A ! i ! j * cos (fm ! i ! j * t)) (index_pairs N)))
         else Inl IndexError)"

text \<open>
  The data that \<^verbatim>\<open>Model.plot_energy_levels\<close> computes before it draws: the set
  \<^verbatim>\<open>frequency_levels\<close> and the set \<^verbatim>\<open>transitions\<close>. \<open>transition_step\<close> is the body of the
  double loop.
\<close>

definition transition_step ::
  "real mat \<Rightarrow> int list \<Rightarrow> (int \<times> int) set \<Rightarrow> nat \<times> nat \<Rightarrow> (int \<times> int) set" where
  "transition_step A rf T p =
     (if A ! fst p ! snd p > 1 / 10 ^ 8
      then (let a = rf ! fst p; b = rf ! snd p;
                ab = (if a > b then (b, a) else (a, b))
            in if fst ab \<noteq> snd ab then insert ab T else T)
      else T)"

definition plot_energy_levels_rounded :: "Model \<Rightarrow> int list" where
  "plot_energy_levels_rounded m = map (\<lambda>e. np_round (e / hbar)) (energies m)"

definition plot_energy_levels :: "Model \<Rightarrow> error + int set \<times> (int \<times> int) set" where
  "plot_energy_levels m =
     (let N = length (energies m);
          rf = plot_energy_levels_rounded m;
          frequency_levels = set rf;
          A = transition_amplitude_matrix m
      in if list_all (in_range2 A) (index_pairs N)
         then Inr (frequency_levels, foldl (transition_step A rf) {} (index_pairs N))
         else Inl IndexError)"

section \<open>The specification's formulas\<close>

text \<open>
  The operator of one particle acting on the first of \<open>n\<close> particles: the entry \<open>(k, l)\<close> of
  the tensor product of \<open>s\<close> with \<open>n - 1\<close> identities of dimension two.
\<close>

definition first_particle_op :: "complex mat \<Rightarrow> nat \<Rightarrow> nat \<Rightarrow> nat \<Rightarrow> complex" where
  "first_particle_op s n k l =
     (if k mod 2 ^ (n - 1) = l mod 2 ^ (n - 1)
      then s ! (k div 2 ^ (n - 1)) ! (l div 2 ^ (n - 1)) else 0)"

text \<open>The entry \<open>(i, j)\<close> of \<open>Mv\<^sup>\<dagger> T Mv\<close> for a square \<open>Mv\<close>.\<close>

definition rotated :: "complex mat \<Rightarrow> (nat \<Rightarrow> nat \<Rightarrow> complex) \<Rightarrow> nat \<Rightarrow> nat \<Rightarrow> complex" where
  "rotated Mv T i j =
     (\<Sum>k<length Mv. \<Sum>l<length Mv. cnj (Mv ! k ! i) * T k l * (Mv ! l ! j))"

text \<open>The double sum of the polarisation formula.\<close>

definition polarisation_spec :: "real mat \<Rightarrow> real list \<Rightarrow> real \<Rightarrow> real" where
  "polarisation_spec A es t =
     (\<Sum>i<length es. \<Sum>j<length es. A ! i ! j * cos (\<bar>es ! i - es ! j\<bar> / hbar * t))"

section \<open>A model of one particle\<close>

text \<open>
  A Hamiltonian of one particle with the energies \<open>0\<close> and \<open>hbar\<close>, a matrix with the same
  lower triangle that is not Hermitian, and what the eigensolver returns for both.
\<close>

definition H_ex :: "complex mat" where
  "H_ex = [[0, 0], [0, complex_of_real hbar]]"

definition H_nonherm :: "complex mat" where
  "H_nonherm = [[0, 1], [0, complex_of_real hbar]]"

definition eigh_ex :: "complex mat \<Rightarrow> error + real list \<times> complex mat" where
  "eigh_ex A = Inr ([0, hbar], I2)"

definition model_ex :: Model where
  "model_ex = \<lparr> energies = [0, hbar], M = I2,
                transition_amplitude_matrix = [[1 / 6, 1 / 3], [1 / 3, 1 / 6]],
                rounded_frequencies = [0, 1] \<rparr>"

section \<open>Shapes and entries\<close>

lemma hbar_pos: "0 < hbar"
  by (simp add: hbar_def)

lemma mk_mat_nth: "i < r \<Longrightarrow> j < c \<Longrightarrow> mk_mat r c f ! i ! j = f i j"
  by (simp add: mk_mat_def)

lemma nrows_mk_mat: "nrows (mk_mat r c f) = r"
  by (simp add: nrows_def mk_mat_def)

lemma ncols_mk_mat: "0 < r \<Longrightarrow> ncols (mk_mat r c f) = c"
  by (cases r) (simp_all add: ncols_def mk_mat_def upt_conv_Cons del: upt_Suc)

lemma is_mat_mk_mat: "is_mat r c (mk_mat r c f)"
  by (simp add: is_mat_def mk_mat_def list_all_iff)

lemma is_mat_nrows: "is_mat r c A \<Longrightarrow> nrows A = r"
  by (simp add: is_mat_def nrows_def)

lemma is_mat_ncols: "is_mat r c A \<Longrightarrow> 0 < r \<Longrightarrow> ncols A = c"
  by (cases A) (auto simp: is_mat_def ncols_def)

lemma is_mat_row: "is_mat r c A \<Longrightarrow> i < r \<Longrightarrow> length (A ! i) = c"
  by (auto simp: is_mat_def list_all_length)

lemma is_mat_map: "is_mat r c A \<Longrightarrow> is_mat r c (map (map f) A)"
  by (auto simp: is_mat_def list_all_length)

lemma map_map_nth: "is_mat r c A \<Longrightarrow> i < r \<Longrightarrow> j < c \<Longrightarrow> map (map f) A ! i ! j = f (A ! i ! j)"
  by (auto simp: is_mat_def list_all_length)

lemma is_mat_map2: "is_mat r c A \<Longrightarrow> is_mat r c B \<Longrightarrow> is_mat r c (map2 (map2 f) A B)"
  by (auto simp: is_mat_def list_all_length)

lemma map2_map2_nth:
  "is_mat r c A \<Longrightarrow> is_mat r c B \<Longrightarrow> i < r \<Longrightarrow> j < c \<Longrightarrow>
   map2 (map2 f) A B ! i ! j = f (A ! i ! j) (B ! i ! j)"
  by (auto simp: is_mat_def list_all_length)

lemma is_mat_mT: "is_mat r c A \<Longrightarrow> 0 < r \<Longrightarrow> is_mat c r (mT A)"
  by (simp add: mT_def is_mat_ncols is_mat_nrows is_mat_mk_mat)

lemma mT_nth: "is_mat r c A \<Longrightarrow> i < c \<Longrightarrow> j < r \<Longrightarrow> mT A ! i ! j = A ! j ! i"
  by (simp add: mT_def is_mat_ncols is_mat_nrows mk_mat_nth)

lemma mat_eqI:
  assumes "is_mat r c A" "is_mat r c B" "\<And>i j. i < r \<Longrightarrow> j < c \<Longrightarrow> A ! i ! j = B ! i ! j"
  shows "A = B"
proof (rule nth_equalityI)
  show "length A = length B" using assms by (simp add: is_mat_def)
next
  fix i assume i: "i < length A"
  then have ir: "i < r" using assms by (simp add: is_mat_def)
  show "A ! i = B ! i"
  proof (rule nth_equalityI)
    show "length (A ! i) = length (B ! i)" using ir assms by (simp add: is_mat_row)
  next
    fix j assume "j < length (A ! i)"
    then have "j < c" using ir assms by (simp add: is_mat_row)
    then show "A ! i ! j = B ! i ! j" using ir assms by simp
  qed
qed

lemma foldl_add_sum_list: "foldl (+) (a::real) xs = a + sum_list xs"
  by (induction xs arbitrary: a) (simp_all add: add.assoc)

lemma sum_list_concat_rows: "sum_list (concat xss) = sum_list (map sum_list xss)"
  by (induction xss) simp_all

lemma sum_list_index_pairs:
  "sum_list (map f (index_pairs N)) = (\<Sum>i<N. \<Sum>j<N. f (i, j))" for f :: "nat \<times> nat \<Rightarrow> 'a::comm_monoid_add"
  unfolding index_pairs_def
  by (simp add: map_concat sum_list_concat_rows comp_def interv_sum_list_conv_sum_set_nat atLeast0LessThan)

lemma set_index_pairs: "set (index_pairs N) = {..<N} \<times> {..<N}"
  by (auto simp: index_pairs_def)


lemmas ew_defs = smul_def sdiv_def sadd_def mabs_def mabs_r_def msq_def

lemma is_mat_ew:
  "is_mat r c A \<Longrightarrow> is_mat r c (smul x A)"
  "is_mat r c A \<Longrightarrow> is_mat r c (sdiv A x)"
  "is_mat r c A \<Longrightarrow> is_mat r c (sadd x A)"
  "is_mat r c Ac \<Longrightarrow> is_mat r c (mabs Ac)"
  "is_mat r c Ar \<Longrightarrow> is_mat r c (mabs_r Ar)"
  "is_mat r c Ar \<Longrightarrow> is_mat r c (msq Ar)"
  by (simp_all add: ew_defs is_mat_map)

lemma ew_nth:
  "is_mat r c A \<Longrightarrow> i < r \<Longrightarrow> j < c \<Longrightarrow> smul x A ! i ! j = x * A ! i ! j"
  "is_mat r c A' \<Longrightarrow> i < r \<Longrightarrow> j < c \<Longrightarrow> sdiv A' y ! i ! j = A' ! i ! j / y"
  "is_mat r c A \<Longrightarrow> i < r \<Longrightarrow> j < c \<Longrightarrow> sadd x A ! i ! j = x + A ! i ! j"
  "is_mat r c Ac \<Longrightarrow> i < r \<Longrightarrow> j < c \<Longrightarrow> mabs Ac ! i ! j = cmod (Ac ! i ! j)"
  "is_mat r c Ar \<Longrightarrow> i < r \<Longrightarrow> j < c \<Longrightarrow> mabs_r Ar ! i ! j = \<bar>Ar ! i ! j\<bar>"
  "is_mat r c Ar \<Longrightarrow> i < r \<Longrightarrow> j < c \<Longrightarrow> msq Ar ! i ! j = (Ar ! i ! j)\<^sup>2"
  by (simp_all add: ew_defs map_map_nth)

lemma is_mat_madd: "is_mat r c A \<Longrightarrow> is_mat r c B \<Longrightarrow> is_mat r c (madd A B)"
  by (simp add: madd_def is_mat_map2)

lemma is_mat_msub: "is_mat r c A \<Longrightarrow> is_mat r c B \<Longrightarrow> is_mat r c (msub A B)"
  by (simp add: msub_def is_mat_map2)

lemma madd_nth:
  "is_mat r c A \<Longrightarrow> is_mat r c B \<Longrightarrow> i < r \<Longrightarrow> j < c \<Longrightarrow>
   madd A B ! i ! j = A ! i ! j + B ! i ! j"
  by (simp add: madd_def map2_map2_nth)

lemma msub_nth:
  "is_mat r c A \<Longrightarrow> is_mat r c B \<Longrightarrow> i < r \<Longrightarrow> j < c \<Longrightarrow>
   msub A B ! i ! j = A ! i ! j - B ! i ! j"
  by (simp add: msub_def map2_map2_nth)

lemma frequency_matrix_nth:
  assumes "i < length es" "j < length es"
  shows "frequency_matrix es ! i ! j = \<bar>es ! i - es ! j\<bar> / hbar"
proof -
  let ?N = "length es"
  have t: "is_mat ?N ?N (tile es ?N)" by (simp add: tile_def is_mat_def list_all_iff)
  have tT: "is_mat ?N ?N (mT (tile es ?N))"
    using assms by (intro is_mat_mT[OF t]) auto
  have e1: "mT (tile es ?N) ! i ! j = es ! i"
    using assms mT_nth[OF t, of i j] by (simp add: tile_def)
  have e2: "tile es ?N ! i ! j = es ! j" using assms by (simp add: tile_def)
  have d: "is_mat ?N ?N (msub (mT (tile es ?N)) (tile es ?N))"
    by (rule is_mat_msub[OF tT t])
  show ?thesis
    using assms e1 e2
    by (simp add: frequency_matrix_def Let_def ew_nth(2)[OF is_mat_ew(5)[OF d]]
        ew_nth(5)[OF d] msub_nth[OF tT t])
qed

lemma polarisation_sum:
  assumes "list_all (in_range2 (transition_amplitude_matrix m)) (index_pairs (length (energies m)))"
  shows "polarisation m t =
         Inr (polarisation_spec (transition_amplitude_matrix m) (energies m) t)"
proof -
  let ?N = "length (energies m)"
  have "(\<Sum>i<?N. \<Sum>j<?N. transition_amplitude_matrix m ! i ! j *
            cos (frequency_matrix (energies m) ! i ! j * t))
      = polarisation_spec (transition_amplitude_matrix m) (energies m) t"
    unfolding polarisation_spec_def
    by (intro sum.cong refl) (simp add: frequency_matrix_nth)
  then show ?thesis
    using assms
    by (simp add: polarisation_def Let_def foldl_add_sum_list
        sum_list_index_pairs[of "\<lambda>p. transition_amplitude_matrix m ! fst p ! snd p *
            cos (frequency_matrix (energies m) ! fst p ! snd p * t)"] case_prod_unfold)
qed

section \<open>Tensor products\<close>

lemma is_mat_kron:
  assumes "is_mat ra ca A" "is_mat rb cb B" "0 < ra" "0 < rb"
  shows "is_mat (ra * rb) (ca * cb) (kron A B)"
  using assms by (simp add: kron_def is_mat_nrows is_mat_ncols is_mat_mk_mat)

lemma kron_nth:
  assumes "is_mat ra ca A" "is_mat rb cb B" "0 < ra" "0 < rb" "i < ra * rb" "j < ca * cb"
  shows "kron A B ! i ! j = A ! (i div rb) ! (j div cb) * B ! (i mod rb) ! (j mod cb)"
  using assms by (simp add: kron_def is_mat_nrows is_mat_ncols mk_mat_nth)

lemma is_mat_consts: "is_mat 2 2 I2" "is_mat 2 2 sigma_x" "is_mat 2 2 sigma_z"
  by (simp_all add: is_mat_def I2_def sigma_x_def sigma_z_def)

lemma I2_nth: "i < 2 \<Longrightarrow> j < 2 \<Longrightarrow> I2 ! i ! j = (if i = j then 1 else 0)"
  by (auto simp: I2_def nth_Cons' less_2_cases_iff)

lemma tp_snoc: "tp a (replicate (Suc k) b) = kron (tp a (replicate k b)) b"
proof -
  have "replicate (Suc k) b = replicate k b @ [b]" by (simp add: replicate_append_same)
  then show ?thesis by (simp only: tp_def foldl_append foldl.simps)
qed

lemma mod_double_eq_iff:
  fixes r c q :: nat
  shows "(r div 2) mod q = (c div 2) mod q \<and> r mod 2 = c mod 2 \<longleftrightarrow> r mod (2 * q) = c mod (2 * q)"
proof -
  have r: "r mod (2 * q) = 2 * ((r div 2) mod q) + r mod 2" for r :: nat
    by (simp add: mod_mult2_eq)
  define a b x y where "a = (r div 2) mod q" and "b = (c div 2) mod q"
    and "x = r mod 2" and "y = c mod 2"
  have "x < 2" "y < 2" by (simp_all add: x_def y_def)
  then have "(a = b \<and> x = y) \<longleftrightarrow> 2 * a + x = 2 * b + y" by arith
  then show ?thesis unfolding r[of r] r[of c] a_def b_def x_def y_def .
qed

lemma tp_replicate:
  assumes s: "is_mat 2 2 s"
  shows "is_mat (2 ^ Suc k) (2 ^ Suc k) (tp s (replicate k I2)) \<and>
         (\<forall>r<2 ^ Suc k. \<forall>c<2 ^ Suc k.
            tp s (replicate k I2) ! r ! c = first_particle_op s (Suc k) r c)"
proof (induction k)
  case 0
  show ?case using s by (simp add: tp_def first_particle_op_def)
next
  case (Suc k)
  let ?T = "tp s (replicate k I2)"
  from Suc have m: "is_mat (2 ^ Suc k) (2 ^ Suc k) ?T"
    and e: "\<And>r c. r < 2 ^ Suc k \<Longrightarrow> c < 2 ^ Suc k \<Longrightarrow> ?T ! r ! c = first_particle_op s (Suc k) r c"
    by blast+
  have m': "is_mat (2 ^ Suc (Suc k)) (2 ^ Suc (Suc k)) (kron ?T I2)"
    using is_mat_kron[OF m is_mat_consts(1)] by (simp add: mult.commute)
  have "kron ?T I2 ! r ! c = first_particle_op s (Suc (Suc k)) r c"
    if r: "r < 2 ^ Suc (Suc k)" and c: "c < 2 ^ Suc (Suc k)" for r c
  proof -
    have r2: "r div 2 < 2 ^ Suc k" and c2: "c div 2 < 2 ^ Suc k" using r c by auto
    have "kron ?T I2 ! r ! c = ?T ! (r div 2) ! (c div 2) * I2 ! (r mod 2) ! (c mod 2)"
      using r c by (intro kron_nth[OF m is_mat_consts(1)]) (simp_all add: mult.commute)
    also have "\<dots> = first_particle_op s (Suc k) (r div 2) (c div 2) * (if r mod 2 = c mod 2 then 1 else 0)"
      by (simp add: e[OF r2 c2] I2_nth)
    also have "\<dots> = first_particle_op s (Suc (Suc k)) r c"
      using mod_double_eq_iff[of r "2 ^ k" c]
      by (auto simp: first_particle_op_def div_mult2_eq mult.commute)
    finally show ?thesis .
  qed
  with m' show ?case by (simp only: tp_snoc) blast
qed

section \<open>Matrix products and the constructor\<close>

lemma is_mat_adj: "is_mat r c A \<Longrightarrow> 0 < r \<Longrightarrow> is_mat c r (adj A)"
  unfolding adj_def by (intro is_mat_mT is_mat_map)

lemma adj_nth: "is_mat r c A \<Longrightarrow> i < c \<Longrightarrow> j < r \<Longrightarrow> adj A ! i ! j = cnj (A ! j ! i)"
  unfolding adj_def by (simp add: mT_nth[OF is_mat_map] map_map_nth)

lemma ncols_adj: "is_mat r c A \<Longrightarrow> ncols (adj A) = (if c = 0 then 0 else r)"
  by (cases A) (auto simp: adj_def mT_def mk_mat_def is_mat_def ncols_def nrows_def upt_conv_Cons
      simp del: upt_Suc split: list.splits)

lemma matmul_ok:
  assumes "is_mat r n A" "is_mat n c B" "0 < r" "0 < n"
  shows "matmul A B = Inr (mk_mat r c (\<lambda>i j. \<Sum>k<n. A ! i ! k * B ! k ! j))"
  using assms
  by (simp add: matmul_def is_mat_nrows is_mat_ncols interv_sum_list_conv_sum_set_nat
      atLeast0LessThan)

lemma matmul_mismatch: "ncols A \<noteq> nrows B \<Longrightarrow> matmul A B = Inl ValueError"
  by (simp add: matmul_def)

lemma matmul3_rotated:
  assumes Mv: "is_mat N N Mv" and T: "is_mat N N T" and N: "0 < N"
  shows "matmul3 (adj Mv) T Mv = Inr (mk_mat N N (rotated Mv (\<lambda>k l. T ! k ! l)))"
proof -
  let ?P = "mk_mat N N (\<lambda>i j. \<Sum>k<N. adj Mv ! i ! k * T ! k ! j)"
  have 1: "matmul (adj Mv) T = Inr ?P"
    by (rule matmul_ok[OF is_mat_adj[OF Mv N] T N N])
  have 2: "matmul ?P Mv = Inr (mk_mat N N (\<lambda>i j. \<Sum>l<N. ?P ! i ! l * Mv ! l ! j))"
    by (rule matmul_ok[OF is_mat_mk_mat Mv N N])
  have 3: "mk_mat N N (\<lambda>i j. \<Sum>l<N. ?P ! i ! l * Mv ! l ! j)
         = mk_mat N N (rotated Mv (\<lambda>k l. T ! k ! l))"
  proof (rule mat_eqI[OF is_mat_mk_mat is_mat_mk_mat])
    fix i j assume i: "i < N" and j: "j < N"
    have len: "length Mv = N" using Mv by (simp add: is_mat_def)
    have "(\<Sum>l<N. ?P ! i ! l * Mv ! l ! j)
        = (\<Sum>l<N. (\<Sum>k<N. cnj (Mv ! k ! i) * T ! k ! l) * Mv ! l ! j)"
      using i by (intro sum.cong refl) (simp add: mk_mat_nth adj_nth[OF Mv])
    also have "\<dots> = (\<Sum>l<N. \<Sum>k<N. cnj (Mv ! k ! i) * T ! k ! l * Mv ! l ! j)"
      by (simp add: sum_distrib_right)
    also have "\<dots> = (\<Sum>k<N. \<Sum>l<N. cnj (Mv ! k ! i) * T ! k ! l * Mv ! l ! j)"
      by (rule sum.swap)
    finally show "mk_mat N N (\<lambda>i j. \<Sum>l<N. ?P ! i ! l * Mv ! l ! j) ! i ! j
        = mk_mat N N (rotated Mv (\<lambda>k l. T ! k ! l)) ! i ! j"
      using i j by (simp add: mk_mat_nth rotated_def len)
  qed
  show ?thesis by (simp add: matmul3_def 1 2 3)
qed

lemma matmul3_mismatch:
  assumes Mv: "is_mat N N Mv" and T: "is_mat K K T" and K: "0 < K" and ne: "N \<noteq> K"
  shows "matmul3 (adj Mv) T Mv = Inl ValueError"
proof -
  have "ncols (adj Mv) \<noteq> nrows T"
    using ne K by (simp add: ncols_adj[OF Mv] is_mat_nrows[OF T])
  then show ?thesis by (simp add: matmul3_def matmul_mismatch)
qed

lemma rotated_tp:
  assumes s: "is_mat 2 2 s" and Mv: "is_mat (2 ^ Suc k) (2 ^ Suc k) Mv"
  shows "rotated Mv (\<lambda>a b. tp s (replicate k I2) ! a ! b) i j
       = rotated Mv (first_particle_op s (Suc k)) i j"
proof -
  have len: "length Mv = 2 ^ Suc k" using Mv by (simp add: is_mat_def)
  show ?thesis
    unfolding rotated_def len
    using tp_replicate[OF s, of k] by (intro sum.cong refl) simp
qed

lemma amplitude_entry:
  assumes X: "is_mat N N X" and Z: "is_mat N N Z" and i: "i < N" and j: "j < N"
  shows "sdiv (sdiv (madd (smul 2 (msq (mabs X))) (msq (mabs Z))) 3) q ! i ! j
       = (2 * (cmod (X ! i ! j))\<^sup>2 + (cmod (Z ! i ! j))\<^sup>2) / 3 / q"
proof -
  note mX = is_mat_ew(6)[OF is_mat_ew(4)[OF X]] and mZ = is_mat_ew(6)[OF is_mat_ew(4)[OF Z]]
  note m2 = is_mat_ew(1)[OF mX, of 2]
  note ms = is_mat_madd[OF m2 mZ]
  show ?thesis
    using i j
    by (simp add: ew_nth(2)[OF is_mat_ew(2)[OF ms]] ew_nth(2)[OF ms] madd_nth[OF m2 mZ]
        ew_nth(1)[OF mX] ew_nth(6)[OF is_mat_ew(4)[OF X]] ew_nth(6)[OF is_mat_ew(4)[OF Z]]
        ew_nth(4)[OF X] ew_nth(4)[OF Z])
qed

lemma is_mat_amplitude:
  assumes X: "is_mat N N X" and Z: "is_mat N N Z"
  shows "is_mat N N (sdiv (sdiv (madd (smul 2 (msq (mabs X))) (msq (mabs Z))) 3) q)"
  by (intro is_mat_ew is_mat_madd X Z)

lemma Model_init_eigh_fail: "eigh Hm = Inl e \<Longrightarrow> Model_init eigh Hm n = Inl e"
  by (simp add: Model_init_def)

lemma Model_init_mismatch:
  assumes e: "eigh Hm = Inr (es, Mv)" and Mv: "is_mat N N Mv" and ne: "N \<noteq> 2 ^ Suc (nat (n - 1))"
  shows "Model_init eigh Hm n = Inl ValueError"
proof -
  have "matmul3 (adj Mv) (tp sigma_x (replicate (nat (n - 1)) I2)) Mv = Inl ValueError"
    using tp_replicate[OF is_mat_consts(2), of "nat (n - 1)"] ne
    by (intro matmul3_mismatch[OF Mv, of "2 ^ Suc (nat (n - 1))"]) simp_all
  then show ?thesis by (simp add: Model_init_def e)
qed

lemma Model_init_ok:
  assumes e: "eigh Hm = Inr (es, Mv)" and Mv: "is_mat (2 ^ Suc k) (2 ^ Suc k) Mv"
    and k: "k = nat (n - 1)"
  shows "Model_init eigh Hm n =
    Inr \<lparr> energies = es, M = Mv,
          transition_amplitude_matrix =
            sdiv (sdiv (madd
              (smul 2 (msq (mabs (mk_mat (2 ^ Suc k) (2 ^ Suc k)
                 (rotated Mv (first_particle_op sigma_x (Suc k)))))))
              (msq (mabs (mk_mat (2 ^ Suc k) (2 ^ Suc k)
                 (rotated Mv (first_particle_op sigma_z (Suc k))))))) 3) (2 powi n),
          rounded_frequencies = map (\<lambda>e. np_round (e / hbar)) es \<rparr>"
proof -
  have r: "matmul3 (adj Mv) (tp s (replicate k I2)) Mv
      = Inr (mk_mat (2 ^ Suc k) (2 ^ Suc k) (rotated Mv (first_particle_op s (Suc k))))"
    if s: "is_mat 2 2 s" for s
  proof -
    have T: "is_mat (2 ^ Suc k) (2 ^ Suc k) (tp s (replicate k I2))"
      using tp_replicate[OF s, of k] by blast
    have "(\<lambda>i j. rotated Mv (\<lambda>a b. tp s (replicate k I2) ! a ! b) i j)
        = (\<lambda>i j. rotated Mv (first_particle_op s (Suc k)) i j)"
      by (intro ext rotated_tp[OF s Mv])
    then show ?thesis using matmul3_rotated[OF Mv T] by simp
  qed
  show ?thesis
    by (simp add: Model_init_def e k[symmetric] r[OF is_mat_consts(2)] r[OF is_mat_consts(3)])
qed

lemma eigh_contract_square:
  assumes "eigh_contract A r" "is_mat (nrows A) (nrows A) A"
  obtains es Mv where "r = Inr (es, Mv)" "length es = nrows A" "is_mat (nrows A) (nrows A) Mv"
  using assms by (auto simp: eigh_contract_def split: sum.splits)

lemma eigh_contract_not_square:
  "eigh_contract A r \<Longrightarrow> \<not> is_mat (nrows A) (nrows A) A \<Longrightarrow> r = Inl LinAlgError"
  by (simp add: eigh_contract_def)

lemma eigh_contract_Inr:
  assumes "eigh_contract A r" "r = Inr (es, Mv)"
  shows "is_mat (nrows A) (nrows A) A \<and> length es = nrows A \<and> is_mat (nrows A) (nrows A) Mv"
  using assms by (auto simp: eigh_contract_def split: if_splits)

lemma Model_init_Inr:
  assumes ok: "Model_init eigh Hm n = Inr m" and c: "eigh_contract Hm (eigh Hm)"
    and k_def: "k = nat (n - 1)"
  shows "eigh Hm = Inr (energies m, M m)"
    and "length (energies m) = 2 ^ Suc k"
    and "is_mat (2 ^ Suc k) (2 ^ Suc k) (M m)"
    and "is_mat (2 ^ Suc k) (2 ^ Suc k) Hm"
    and "transition_amplitude_matrix m =
            sdiv (sdiv (madd
              (smul 2 (msq (mabs (mk_mat (2 ^ Suc k) (2 ^ Suc k)
                 (rotated (M m) (first_particle_op sigma_x (Suc k)))))))
              (msq (mabs (mk_mat (2 ^ Suc k) (2 ^ Suc k)
                 (rotated (M m) (first_particle_op sigma_z (Suc k))))))) 3) (2 powi n)"
    and "rounded_frequencies m = map (\<lambda>e. np_round (e / hbar)) (energies m)"
proof -
  obtain es Mv where e: "eigh Hm = Inr (es, Mv)"
    using ok by (cases "eigh Hm") (auto simp: Model_init_def)
  note sh = eigh_contract_Inr[OF c e]
  have N: "nrows Hm = 2 ^ Suc k"
    using Model_init_mismatch[of eigh Hm es Mv "nrows Hm" n] e sh ok by (auto simp: k_def)
  have Mv: "is_mat (2 ^ Suc k) (2 ^ Suc k) Mv" using sh N by simp
  have m: "Inr m = Model_init eigh Hm n" using ok by simp
  note eq = m[unfolded Model_init_ok[of eigh Hm es Mv k n, OF e Mv k_def], simplified]
  show "eigh Hm = Inr (energies m, M m)" by (simp add: eq e)
  show "length (energies m) = 2 ^ Suc k" using sh N by (simp add: eq)
  show "is_mat (2 ^ Suc k) (2 ^ Suc k) (M m)" using Mv by (simp add: eq)
  show "is_mat (2 ^ Suc k) (2 ^ Suc k) Hm" using sh N by simp
  show "transition_amplitude_matrix m =
            sdiv (sdiv (madd
              (smul 2 (msq (mabs (mk_mat (2 ^ Suc k) (2 ^ Suc k)
                 (rotated (M m) (first_particle_op sigma_x (Suc k)))))))
              (msq (mabs (mk_mat (2 ^ Suc k) (2 ^ Suc k)
                 (rotated (M m) (first_particle_op sigma_z (Suc k))))))) 3) (2 powi n)"
    by (simp add: eq)
  show "rounded_frequencies m = map (\<lambda>e. np_round (e / hbar)) (energies m)"
    by (simp add: eq)
qed

lemma Model_init_amplitude:
  assumes ok: "Model_init eigh Hm n = Inr m" and c: "eigh_contract Hm (eigh Hm)"
    and k_def: "k = nat (n - 1)"
  shows "is_mat (2 ^ Suc k) (2 ^ Suc k) (transition_amplitude_matrix m)"
    and "i < 2 ^ Suc k \<Longrightarrow> j < 2 ^ Suc k \<Longrightarrow>
         transition_amplitude_matrix m ! i ! j =
           (2 * (cmod (rotated (M m) (first_particle_op sigma_x (Suc k)) i j))\<^sup>2
            + (cmod (rotated (M m) (first_particle_op sigma_z (Suc k)) i j))\<^sup>2) / 3 / 2 powi n"
  unfolding Model_init_Inr(5)[OF ok c k_def]
  by (simp_all add: is_mat_amplitude[OF is_mat_mk_mat is_mat_mk_mat]
      amplitude_entry[OF is_mat_mk_mat is_mat_mk_mat] mk_mat_nth)

lemma eigh_ex_contract: "eigh_contract H_ex (eigh_ex H_ex)"
  using hbar_pos
  by (simp add: eigh_contract_def eigh_ex_def H_ex_def is_mat_def nrows_def ncols_def
      matmul_def lower_herm_def diag_def adj_def mT_def mk_mat_def I2_def)

lemma eigh_nonherm_contract: "eigh_contract H_nonherm (eigh_ex H_nonherm)"
  using hbar_pos
  by (simp add: eigh_contract_def eigh_ex_def H_nonherm_def is_mat_def nrows_def ncols_def
      matmul_def lower_herm_def diag_def adj_def mT_def mk_mat_def I2_def)

lemma Model_init_ex: "Model_init eigh_ex A 1 = Inr model_ex"
  using hbar_pos
  by (simp add: Model_init_def eigh_ex_def model_ex_def matmul3_def matmul_def adj_def mT_def
      mk_mat_def tp_def I2_def sigma_x_def sigma_z_def nrows_def ncols_def
      sdiv_def madd_def smul_def msq_def mabs_def np_round_def)

section \<open>Hermitian matrices and the Hamiltonian\<close>

lemma hermitian_is_mat: "is_hermitian n A \<Longrightarrow> is_mat n n A"
  by (simp add: is_hermitian_def)

lemma hermitianD:
  assumes "is_hermitian n A" "i < n" "j < n"
  shows "A ! j ! i = cnj (A ! i ! j)"
proof -
  from assms(1) have m: "is_mat n n A" and a: "adj A = A" by (simp_all add: is_hermitian_def)
  show ?thesis using adj_nth[OF m assms(3) assms(2)] a by simp
qed

lemma hermitianI:
  assumes m: "is_mat n n A" and n: "0 < n"
    and e: "\<And>i j. i < n \<Longrightarrow> j < n \<Longrightarrow> cnj (A ! j ! i) = A ! i ! j"
  shows "is_hermitian n A"
proof -
  have "adj A = A"
  proof (rule mat_eqI[OF is_mat_adj[OF m n] m])
    fix i j assume "i < n" "j < n"
    then show "adj A ! i ! j = A ! i ! j" by (simp add: adj_nth[OF m] e)
  qed
  with m show ?thesis by (simp add: is_hermitian_def)
qed

lemma hermitian_kron:
  assumes A: "is_hermitian n A" and B: "is_hermitian k B" and n: "0 < n" and k: "0 < k"
  shows "is_hermitian (n * k) (kron A B)"
proof (rule hermitianI)
  note mA = hermitian_is_mat[OF A] and mB = hermitian_is_mat[OF B]
  show "is_mat (n * k) (n * k) (kron A B)" by (rule is_mat_kron[OF mA mB n k])
  show "0 < n * k" using n k by simp
  fix i j assume i: "i < n * k" and j: "j < n * k"
  have d: "i div k < n" "j div k < n" using i j by (simp_all add: less_mult_imp_div_less)
  have r: "i mod k < k" "j mod k < k" using k by simp_all
  show "cnj (kron A B ! j ! i) = kron A B ! i ! j"
    unfolding kron_nth[OF mA mB n k i j] kron_nth[OF mA mB n k j i]
      hermitianD[OF A d(2) d(1)] hermitianD[OF B r(2) r(1)]
    by simp
qed

lemma hermitian_madd:
  assumes A: "is_hermitian n A" and B: "is_hermitian n B" and n: "0 < n"
  shows "is_hermitian n (madd A B)"
proof (rule hermitianI)
  note mA = hermitian_is_mat[OF A] and mB = hermitian_is_mat[OF B]
  show "is_mat n n (madd A B)" by (rule is_mat_madd[OF mA mB])
  show "0 < n" by (rule n)
  fix i j assume i: "i < n" and j: "j < n"
  show "cnj (madd A B ! j ! i) = madd A B ! i ! j"
    unfolding madd_nth[OF mA mB i j] madd_nth[OF mA mB j i]
      hermitianD[OF A i j] hermitianD[OF B i j]
    by simp
qed

lemma hermitian_msub:
  assumes A: "is_hermitian n A" and B: "is_hermitian n B" and n: "0 < n"
  shows "is_hermitian n (msub A B)"
proof (rule hermitianI)
  note mA = hermitian_is_mat[OF A] and mB = hermitian_is_mat[OF B]
  show "is_mat n n (msub A B)" by (rule is_mat_msub[OF mA mB])
  show "0 < n" by (rule n)
  fix i j assume i: "i < n" and j: "j < n"
  show "cnj (msub A B ! j ! i) = msub A B ! i ! j"
    unfolding msub_nth[OF mA mB i j] msub_nth[OF mA mB j i]
      hermitianD[OF A i j] hermitianD[OF B i j]
    by simp
qed

lemma hermitian_smul:
  assumes A: "is_hermitian n A" and n: "0 < n" and c: "cnj c = c"
  shows "is_hermitian n (smul c A)"
proof (rule hermitianI)
  note mA = hermitian_is_mat[OF A]
  show "is_mat n n (smul c A)" by (rule is_mat_ew(1)[OF mA])
  show "0 < n" by (rule n)
  fix i j assume i: "i < n" and j: "j < n"
  show "cnj (smul c A ! j ! i) = smul c A ! i ! j"
    unfolding ew_nth(1)[OF mA i j] ew_nth(1)[OF mA j i] hermitianD[OF A i j]
    by (simp add: c)
qed

lemma sadd_zero: "sadd (0::complex) A = A"
  by (simp add: sadd_def map_idI)

lemma py_sum_three: "py_sum (map f [0..<3]) = madd (madd (sadd 0 (f 0)) (f 1)) (f 2)"
  by (simp add: py_sum_def upt_conv_Cons numeral_2_eq_2 del: upt_Suc)

lemma tp_three: "tp a [b, c] = kron (kron a b) c"
  by (simp add: tp_def)

lemma hermitian_I2: "is_hermitian 2 I2"
proof (rule hermitianI[OF is_mat_consts(1)])
  fix i j :: nat assume "i < 2" "j < 2"
  then show "cnj (I2 ! j ! i) = I2 ! i ! j" by (simp add: I2_nth)
qed simp

lemma hermitian_tp3:
  assumes "is_hermitian 2 a" "is_hermitian 2 b" "is_hermitian 2 c"
  shows "is_hermitian 8 (tp a [b, c])"
  using hermitian_kron[OF hermitian_kron[OF assms(1,2)] assms(3)] by (simp add: tp_three)

lemma hermitian_py_sum3:
  assumes "is_hermitian 8 (f 0)" "is_hermitian 8 (f 1)" "is_hermitian 8 (f 2)"
  shows "is_hermitian 8 (py_sum (map f [0..<3]))"
  using assms by (simp add: py_sum_three sadd_zero hermitian_madd)

lemma H_builder_hermitian:
  assumes "is_hermitian 2 (Sv ! 0)" "is_hermitian 2 (Sv ! 1)" "is_hermitian 2 (Sv ! 2)"
  shows "is_hermitian 8 (H_builder (complex_of_real c) Sv)"
  unfolding H_builder_def
  by (intro hermitian_smul hermitian_msub hermitian_madd hermitian_py_sum3 hermitian_tp3
      hermitian_I2 assms) simp_all

lemma S_hermitian: "is_hermitian 2 (S ! 0)" "is_hermitian 2 (S ! 1)" "is_hermitian 2 (S ! 2)"
  by (simp_all add: is_hermitian_def S_def smul_def is_mat_def adj_def mT_def mk_mat_def
      nrows_def ncols_def)

text \<open>
  Claim C2. The Hamiltonian of the builder formula, with a real coefficient and three Hermitian
  spin operators of one particle, equals its own adjoint. The witness is the Hamiltonian of the
  program, built from its array \<open>S\<close>.
\<close>

theorem H_builder_is_hermitian:
  assumes "is_hermitian 2 (Sv ! 0)" "is_hermitian 2 (Sv ! 1)" "is_hermitian 2 (Sv ! 2)"
  shows "adj (H_builder (complex_of_real c) Sv) = H_builder (complex_of_real c) Sv"
  using H_builder_hermitian[OF assms] by (simp add: is_hermitian_def)

theorem H_builder_is_hermitian_witness:
  "is_hermitian 2 (S ! 0) \<and> is_hermitian 2 (S ! 1) \<and> is_hermitian 2 (S ! 2) \<and> adj (H 1) = H 1"
  using H_builder_is_hermitian[OF S_hermitian, of 1] S_hermitian by (simp add: H_def)

section \<open>The claims about the model\<close>

lemma in_range_index_pairs: "is_mat N N A \<Longrightarrow> list_all (in_range2 A) (index_pairs N)"
  by (cases "N = 0")
     (auto simp: list_all_iff set_index_pairs in_range2_def is_mat_nrows is_mat_ncols)

text \<open>
  Claim C1. For a model constructed from a Hamiltonian and a particle count \<open>n \<ge> 1\<close>, the
  stored matrix \<open>M\<close> is the eigenvector matrix that the eigensolver returned, the model has
  \<open>2 ^ n\<close> energies, and every entry \<open>(i, j)\<close> of the stored transition-amplitude matrix is
  \<open>(2 |M\<^sup>\<dagger> TX M|[i][j]\<^sup>2 + |M\<^sup>\<dagger> TZ M|[i][j]\<^sup>2) / (3 * 2 ^ n)\<close>, where \<open>TX\<close> and \<open>TZ\<close> are
  \<open>sigma_x\<close> and \<open>sigma_z\<close> acting on the first of the \<open>n\<close> particles.
\<close>

theorem transition_amplitude_matrix_formula:
  assumes "Model_init eigh Hm n = Inr m" and "eigh_contract Hm (eigh Hm)" and "1 \<le> n"
    and "i < length (energies m)" and "j < length (energies m)"
  shows "eigh Hm = Inr (energies m, M m) \<and> length (energies m) = 2 ^ nat n \<and>
         transition_amplitude_matrix m ! i ! j =
           (2 * (cmod (rotated (M m) (first_particle_op sigma_x (nat n)) i j))\<^sup>2
            + (cmod (rotated (M m) (first_particle_op sigma_z (nat n)) i j))\<^sup>2) / (3 * 2 ^ nat n)"
proof -
  have k: "nat n - 1 = nat (n - 1)" and sk: "Suc (nat n - 1) = nat n" using assms(3) by simp_all
  note f = Model_init_Inr[OF assms(1,2) k, unfolded sk]
  have p: "(2::real) powi n = 2 ^ nat n" using assms(3) by (simp add: power_int_def)
  have i: "i < 2 ^ nat n" and j: "j < 2 ^ nat n" using assms(4,5) f(2) by simp_all
  show ?thesis
    using f(1,2) Model_init_amplitude(2)[OF assms(1,2) k, unfolded sk, OF i j]
    by (simp add: p)
qed

theorem transition_amplitude_matrix_formula_witness:
  "Model_init eigh_ex H_ex 1 = Inr model_ex \<and> eigh_contract H_ex (eigh_ex H_ex) \<and>
   transition_amplitude_matrix model_ex ! 0 ! 1 =
     (2 * (cmod (rotated (M model_ex) (first_particle_op sigma_x (nat 1)) 0 1))\<^sup>2
      + (cmod (rotated (M model_ex) (first_particle_op sigma_z (nat 1)) 0 1))\<^sup>2) / (3 * 2 ^ nat 1) \<and>
   transition_amplitude_matrix model_ex ! 0 ! 1 = 1 / 3"
  using transition_amplitude_matrix_formula[of eigh_ex H_ex 1 model_ex 0 1]
    Model_init_ex[of H_ex] eigh_ex_contract
  by (simp add: model_ex_def)

lemma Model_init_in_range:
  assumes "Model_init eigh Hm n = Inr m" and "eigh_contract Hm (eigh Hm)"
  shows "list_all (in_range2 (transition_amplitude_matrix m)) (index_pairs (length (energies m)))"
  using in_range_index_pairs[OF Model_init_amplitude(1)[OF assms refl]]
    Model_init_Inr(2)[OF assms refl] by simp

lemma polarisation_spec_diagonal:
  "polarisation_spec A es t =
     (\<Sum>i<length es. A ! i ! i) +
     (\<Sum>i<length es. \<Sum>j\<in>{..<length es} - {i}. A ! i ! j * cos (\<bar>es ! i - es ! j\<bar> / hbar * t))"
proof -
  have "(\<Sum>j<length es. A ! i ! j * cos (\<bar>es ! i - es ! j\<bar> / hbar * t))
      = A ! i ! i + (\<Sum>j\<in>{..<length es} - {i}. A ! i ! j * cos (\<bar>es ! i - es ! j\<bar> / hbar * t))"
    if "i < length es" for i
    using that by (subst sum.remove[of _ i]) simp_all
  then show ?thesis
    by (simp add: polarisation_spec_def sum.distrib[symmetric])
qed

text \<open>
  Claim C3. The polarisation of a constructed model at a time \<open>t\<close> is the double sum over all
  ordered pairs \<open>(i, j)\<close> of \<open>A[i][j] * cos (|energies[i] - energies[j]| / hbar * t)\<close>; the terms
  with \<open>i = j\<close> add up to the constant sum of the diagonal of \<open>A\<close>.
\<close>

theorem polarisation_double_sum:
  assumes "Model_init eigh Hm n = Inr m" and "eigh_contract Hm (eigh Hm)"
  shows "polarisation m t =
           Inr (\<Sum>i<length (energies m). \<Sum>j<length (energies m).
                  transition_amplitude_matrix m ! i ! j *
                  cos (\<bar>energies m ! i - energies m ! j\<bar> / hbar * t)) \<and>
         polarisation m t =
           Inr ((\<Sum>i<length (energies m). transition_amplitude_matrix m ! i ! i) +
                (\<Sum>i<length (energies m). \<Sum>j\<in>{..<length (energies m)} - {i}.
                  transition_amplitude_matrix m ! i ! j *
                  cos (\<bar>energies m ! i - energies m ! j\<bar> / hbar * t)))"
  using polarisation_sum[OF Model_init_in_range[OF assms], of t]
    polarisation_spec_diagonal[of "transition_amplitude_matrix m" "energies m" t]
  by (simp add: polarisation_spec_def)

theorem polarisation_double_sum_witness:
  "Model_init eigh_ex H_ex 1 = Inr model_ex \<and> eigh_contract H_ex (eigh_ex H_ex) \<and>
   polarisation model_ex pi = Inr (- 1 / 3)"
  using polarisation_double_sum[of eigh_ex H_ex 1 model_ex pi] Model_init_ex[of H_ex]
    eigh_ex_contract hbar_pos
  by (simp add: model_ex_def lessThan_Suc numeral_2_eq_2)

lemma sum_list_rows:
  assumes "is_mat N N A"
  shows "sum_list (map sum_list A) = (\<Sum>i<N. \<Sum>j<N. (A ! i ! j :: real))"
proof -
  have len: "length A = N" using assms by (simp add: is_mat_def)
  have "sum_list (map sum_list A) = (\<Sum>i<N. sum_list (A ! i))"
    by (simp add: sum_list_sum_nth len atLeast0LessThan)
  also have "\<dots> = (\<Sum>i<N. \<Sum>j<N. A ! i ! j)"
    by (intro sum.cong refl) (simp add: sum_list_sum_nth is_mat_row[OF assms] atLeast0LessThan)
  finally show ?thesis .
qed

text \<open>
  Claim C6. The polarisation of a constructed model at time \<open>0\<close> is the sum of all entries of
  its transition-amplitude matrix (in exact arithmetic the two are equal).
\<close>

theorem polarisation_at_zero:
  assumes "Model_init eigh Hm n = Inr m" and "eigh_contract Hm (eigh Hm)"
  shows "polarisation m 0 = Inr (sum_list (map sum_list (transition_amplitude_matrix m)))"
  using polarisation_sum[OF Model_init_in_range[OF assms], of 0]
    sum_list_rows[OF Model_init_amplitude(1)[OF assms refl]]
    Model_init_Inr(2)[OF assms refl]
  by (simp add: polarisation_spec_def)

theorem polarisation_at_zero_witness:
  "Model_init eigh_ex H_ex 1 = Inr model_ex \<and> eigh_contract H_ex (eigh_ex H_ex) \<and>
   polarisation model_ex 0 = Inr 1"
  using polarisation_at_zero[of eigh_ex H_ex 1 model_ex] Model_init_ex[of H_ex] eigh_ex_contract
  by (simp add: model_ex_def)

text \<open>
  Claim C7. The polarisation is an even function of the time, for every model.
\<close>

theorem polarisation_is_even: "polarisation m (- t) = polarisation m t"
  by (simp add: polarisation_def Let_def)

text \<open>
  Claim C10. The rounded frequencies stored by the constructor are the sequence that
  \<^verbatim>\<open>plot_energy_levels\<close> computes again from the stored energies.
\<close>

theorem rounded_frequencies_agree:
  assumes "Model_init eigh Hm n = Inr m"
  shows "rounded_frequencies m = plot_energy_levels_rounded m"
  using assms
  by (auto simp: Model_init_def plot_energy_levels_rounded_def split: sum.splits prod.splits)

theorem rounded_frequencies_agree_witness:
  "Model_init eigh_ex H_ex 1 = Inr model_ex \<and>
   rounded_frequencies model_ex = plot_energy_levels_rounded model_ex \<and>
   plot_energy_levels_rounded model_ex = [0, 1]"
  using rounded_frequencies_agree[of eigh_ex H_ex 1 model_ex] Model_init_ex[of H_ex]
  by (simp add: model_ex_def)

lemma rotated_hermitian:
  assumes T: "\<And>k l. k < length Mv \<Longrightarrow> l < length Mv \<Longrightarrow> cnj (T k l) = T l k"
  shows "cnj (rotated Mv T i j) = rotated Mv T j i"
proof -
  let ?N = "length Mv"
  have "cnj (rotated Mv T i j) = (\<Sum>k<?N. \<Sum>l<?N. cnj (Mv ! l ! j) * T l k * (Mv ! k ! i))"
    unfolding rotated_def cnj_sum
    by (intro sum.cong refl) (simp add: T mult_ac)
  also have "\<dots> = (\<Sum>l<?N. \<Sum>k<?N. cnj (Mv ! l ! j) * T l k * (Mv ! k ! i))"
    by (rule sum.swap)
  finally show ?thesis by (simp add: rotated_def)
qed

lemma sigma_symmetric:
  "a < 2 \<Longrightarrow> b < 2 \<Longrightarrow> cnj (sigma_x ! a ! b) = sigma_x ! b ! a"
  "a < 2 \<Longrightarrow> b < 2 \<Longrightarrow> cnj (sigma_z ! a ! b) = sigma_z ! b ! a"
  by (auto simp: sigma_x_def sigma_z_def less_2_cases_iff)

lemma first_particle_op_symmetric:
  assumes s: "\<And>a b. a < 2 \<Longrightarrow> b < 2 \<Longrightarrow> cnj (s ! a ! b) = s ! b ! a"
    and k: "k < 2 ^ Suc q" and l: "l < 2 ^ Suc q"
  shows "cnj (first_particle_op s (Suc q) k l) = first_particle_op s (Suc q) l k"
proof -
  have "k div 2 ^ q < 2" "l div 2 ^ q < 2"
    using k l by (simp_all add: less_mult_imp_div_less mult.commute)
  then show ?thesis by (auto simp: first_particle_op_def s)
qed

text \<open>
  Claim C5. The transition-amplitude matrix of a constructed model is a real matrix that is
  symmetric and has no negative entry.
\<close>

theorem transition_amplitude_matrix_symmetric_nonneg:
  assumes "Model_init eigh Hm n = Inr m" and "eigh_contract Hm (eigh Hm)"
    and "i < length (energies m)" and "j < length (energies m)"
  shows "transition_amplitude_matrix m ! i ! j = transition_amplitude_matrix m ! j ! i \<and>
         0 \<le> transition_amplitude_matrix m ! i ! j"
proof -
  let ?q = "nat (n - 1)"
  note f = Model_init_Inr[OF assms(1,2) refl]
  have len: "length (M m) = 2 ^ Suc ?q" using f(3) by (simp add: is_mat_def)
  have i: "i < 2 ^ Suc ?q" and j: "j < 2 ^ Suc ?q" using assms(3,4) f(2) by simp_all
  have csym: "cmod (rotated (M m) (first_particle_op s (Suc ?q)) j i)
           = cmod (rotated (M m) (first_particle_op s (Suc ?q)) i j)"
    if s: "\<And>a b. a < 2 \<Longrightarrow> b < 2 \<Longrightarrow> cnj (s ! a ! b) = s ! b ! a" for s
  proof -
    have "cnj (rotated (M m) (first_particle_op s (Suc ?q)) i j)
        = rotated (M m) (first_particle_op s (Suc ?q)) j i"
      by (rule rotated_hermitian) (simp add: len first_particle_op_symmetric[OF s])
    then show ?thesis by (metis complex_mod_cnj)
  qed
  have pos: "0 < (2::real) powi n" by simp
  have x: "cmod (rotated (M m) (first_particle_op sigma_x (Suc ?q)) j i)
         = cmod (rotated (M m) (first_particle_op sigma_x (Suc ?q)) i j)"
    by (rule csym) (rule sigma_symmetric(1))
  have z: "cmod (rotated (M m) (first_particle_op sigma_z (Suc ?q)) j i)
         = cmod (rotated (M m) (first_particle_op sigma_z (Suc ?q)) i j)"
    by (rule csym) (rule sigma_symmetric(2))
  show ?thesis
    unfolding Model_init_amplitude(2)[OF assms(1,2) refl i j]
      Model_init_amplitude(2)[OF assms(1,2) refl j i] x z
    using pos by (simp add: divide_nonneg_pos)
qed

theorem transition_amplitude_matrix_symmetric_nonneg_witness:
  "Model_init eigh_ex H_ex 1 = Inr model_ex \<and> eigh_contract H_ex (eigh_ex H_ex) \<and>
   transition_amplitude_matrix model_ex ! 0 ! 1 = transition_amplitude_matrix model_ex ! 1 ! 0 \<and>
   0 \<le> transition_amplitude_matrix model_ex ! 0 ! 1"
  using transition_amplitude_matrix_symmetric_nonneg[of eigh_ex H_ex 1 model_ex 0 1]
    Model_init_ex[of H_ex] eigh_ex_contract
  by (simp add: model_ex_def)

lemma transition_step_eq:
  "transition_step A rf T p =
     T \<union> {(a, b). a < b \<and> 1 / 10 ^ 8 < A ! fst p ! snd p \<and>
            ((rf ! fst p = a \<and> rf ! snd p = b) \<or> (rf ! fst p = b \<and> rf ! snd p = a))}"
  by (auto simp: transition_step_def Let_def)

lemma foldl_transition_step:
  "foldl (transition_step A rf) T ps =
     T \<union> {(a, b). a < b \<and> (\<exists>p\<in>set ps. 1 / 10 ^ 8 < A ! fst p ! snd p \<and>
            ((rf ! fst p = a \<and> rf ! snd p = b) \<or> (rf ! fst p = b \<and> rf ! snd p = a)))}"
proof (induction ps arbitrary: T)
  case Nil
  show ?case by simp
next
  case (Cons p ps)
  show ?case
    unfolding foldl.simps Cons.IH transition_step_eq[of A rf T p] by auto
qed

text \<open>
  Claim C9. For a constructed model, \<^verbatim>\<open>plot_energy_levels\<close> does not fail; its set of
  transitions is exactly the set of pairs \<open>(a, b)\<close> with \<open>a < b\<close> that are the rounded
  frequencies, in either order, of some \<open>i\<close> and \<open>j\<close> whose amplitude \<open>A[i][j]\<close> is above
  \<open>1e-8\<close>. So it holds only pairs with \<open>a < b\<close>, and no pair that has no amplitude above the
  threshold.
\<close>

theorem transitions_canonical_above_threshold:
  assumes "Model_init eigh Hm n = Inr m" and "eigh_contract Hm (eigh Hm)"
  shows "plot_energy_levels m =
     Inr (set (rounded_frequencies m),
          {(a, b). a < b \<and>
             (\<exists>i<length (energies m). \<exists>j<length (energies m).
                1 / 10 ^ 8 < transition_amplitude_matrix m ! i ! j \<and>
                ((rounded_frequencies m ! i = a \<and> rounded_frequencies m ! j = b) \<or>
                 (rounded_frequencies m ! i = b \<and> rounded_frequencies m ! j = a)))})"
proof -
  have rf: "plot_energy_levels_rounded m = rounded_frequencies m"
    using assms(1)
    by (auto simp: Model_init_def plot_energy_levels_rounded_def split: sum.splits prod.splits)
  have "{(a, b). a < b \<and> (\<exists>p\<in>set (index_pairs (length (energies m))).
            1 / 10 ^ 8 < transition_amplitude_matrix m ! fst p ! snd p \<and>
            ((rounded_frequencies m ! fst p = a \<and> rounded_frequencies m ! snd p = b) \<or>
             (rounded_frequencies m ! fst p = b \<and> rounded_frequencies m ! snd p = a)))}
      = {(a, b). a < b \<and>
             (\<exists>i<length (energies m). \<exists>j<length (energies m).
                1 / 10 ^ 8 < transition_amplitude_matrix m ! i ! j \<and>
                ((rounded_frequencies m ! i = a \<and> rounded_frequencies m ! j = b) \<or>
                 (rounded_frequencies m ! i = b \<and> rounded_frequencies m ! j = a)))}"
    unfolding set_index_pairs by fastforce
  then show ?thesis
    using Model_init_in_range[OF assms]
    by (simp add: plot_energy_levels_def Let_def rf foldl_transition_step)
qed

lemma ex_less_two: "(\<exists>i<Suc (Suc 0). P i) \<longleftrightarrow> P 0 \<or> P (Suc 0)"
  by (auto simp: less_Suc_eq)

theorem transitions_canonical_above_threshold_witness:
  "Model_init eigh_ex H_ex 1 = Inr model_ex \<and> eigh_contract H_ex (eigh_ex H_ex) \<and>
   plot_energy_levels model_ex = Inr ({0, 1}, {(0, 1)})"
proof -
  have h: "Model_init eigh_ex H_ex 1 = Inr model_ex" by (rule Model_init_ex)
  have "plot_energy_levels model_ex = Inr ({0, 1}, {(0, 1)})"
    unfolding transitions_canonical_above_threshold[of eigh_ex H_ex 1 model_ex,
        OF h eigh_ex_contract]
    by (auto simp: model_ex_def ex_less_two)
  with h eigh_ex_contract show ?thesis by simp
qed

lemma H_nonherm_not_hermitian: "adj H_nonherm \<noteq> H_nonherm"
  by (simp add: H_nonherm_def adj_def mT_def mk_mat_def nrows_def ncols_def)

text \<open>
  Claim C4 as stated fails: the constructor accepts the square matrix \<open>H_nonherm\<close>, which
  is not Hermitian, and builds the same model as from \<open>H_ex\<close>, because the eigensolver reads
  the lower triangle only.
\<close>

theorem construction_accepts_non_hermitian:
  "is_mat 2 2 H_nonherm \<and> adj H_nonherm \<noteq> H_nonherm \<and>
   eigh_contract H_nonherm (eigh_ex H_nonherm) \<and>
   Model_init eigh_ex H_nonherm 1 = Inr model_ex"
  using H_nonherm_not_hermitian eigh_nonherm_contract Model_init_ex[of H_nonherm]
  by (simp add: is_mat_def H_nonherm_def)

text \<open>
  Claim C4, amended. With an eigensolver that keeps its contract, the construction fails with
  \<^verbatim>\<open>LinAlgError\<close> exactly when the matrix is not square, fails with \<^verbatim>\<open>ValueError\<close> exactly
  when it is square of a dimension other than \<open>2 ^ n\<close> (other than \<open>2\<close> when \<open>n \<le> 0\<close>), and
  succeeds exactly when it is square of that dimension; whether the matrix is Hermitian plays
  no part.
\<close>

theorem construction_succeeds_iff_dimension:
  assumes "eigh_contract Hm (eigh Hm)"
  shows "(Model_init eigh Hm n = Inl LinAlgError) = (\<not> is_mat (nrows Hm) (nrows Hm) Hm) \<and>
         (Model_init eigh Hm n = Inl ValueError) =
           (is_mat (nrows Hm) (nrows Hm) Hm \<and> nrows Hm \<noteq> 2 ^ Suc (nat (n - 1))) \<and>
         (\<exists>m. Model_init eigh Hm n = Inr m) =
           is_mat (2 ^ Suc (nat (n - 1))) (2 ^ Suc (nat (n - 1))) Hm"
proof (cases "is_mat (nrows Hm) (nrows Hm) Hm")
  case False
  then have "\<not> is_mat (2 ^ Suc (nat (n - 1))) (2 ^ Suc (nat (n - 1))) Hm"
    using is_mat_nrows[of "2 ^ Suc (nat (n - 1))" "2 ^ Suc (nat (n - 1))" Hm] by auto
  then show ?thesis
    using False
      Model_init_eigh_fail[of eigh Hm LinAlgError n] eigh_contract_not_square[OF assms False]
    by simp
next
  case True
  obtain es Mv where e: "eigh Hm = Inr (es, Mv)"
    and Mv: "is_mat (nrows Hm) (nrows Hm) Mv"
    using eigh_contract_square[OF assms True] by metis
  show ?thesis
  proof (cases "nrows Hm = 2 ^ Suc (nat (n - 1))")
    case ne: False
    then have "\<not> is_mat (2 ^ Suc (nat (n - 1))) (2 ^ Suc (nat (n - 1))) Hm"
      using is_mat_nrows[of "2 ^ Suc (nat (n - 1))" "2 ^ Suc (nat (n - 1))" Hm] by auto
    then show ?thesis
      using True ne Model_init_mismatch[of eigh Hm es Mv "nrows Hm" n, OF e Mv] by simp
  next
    case eq: True
    have sq: "is_mat (2 ^ Suc (nat (n - 1))) (2 ^ Suc (nat (n - 1))) Hm"
      using True eq by simp
    show ?thesis
      using True eq sq
        Model_init_ok[of eigh Hm es Mv "nat (n - 1)" n, OF e Mv[unfolded eq] refl]
      by simp
  qed
qed

theorem construction_succeeds_iff_dimension_witness:
  "eigh_contract H_nonherm (eigh_ex H_nonherm) \<and> is_mat 2 2 H_nonherm \<and>
   (\<exists>m. Model_init eigh_ex H_nonherm 1 = Inr m) \<and>
   eigh_contract [[0, 0]] (Inl LinAlgError) \<and> \<not> is_mat 1 1 [[0, 0 :: complex]] \<and>
   Model_init (\<lambda>A. Inl LinAlgError) [[0, 0]] 1 = Inl LinAlgError"
proof -
  have c: "eigh_contract [[0, 0]] ((\<lambda>A. Inl LinAlgError) [[0, 0 :: complex]])"
    by (simp add: eigh_contract_def is_mat_def nrows_def)
  show ?thesis
    using construction_succeeds_iff_dimension[of H_nonherm eigh_ex 1]
      construction_succeeds_iff_dimension[of "[[0, 0]]" "\<lambda>A. Inl LinAlgError" 1, OF c]
      eigh_nonherm_contract c
    by (simp add: nrows_def H_nonherm_def is_mat_def)
qed

lemma floor_log2_power: "\<lfloor>log 2 (real (2 ^ k))\<rfloor> = int k"
  by simp

text \<open>
  Claim C8. For a square matrix of dimension \<open>N\<close> and a particle count \<open>n \<ge> 1\<close>, the
  construction fails, with the \<^verbatim>\<open>ValueError\<close> of the matrix product, exactly when
  \<open>N \<noteq> 2 ^ n\<close>. A model that is constructed has \<open>2 ^ n\<close> energies, so the logarithm to base two
  of their number is the exact integer \<open>n\<close>, and the particle count that \<^verbatim>\<open>print_details\<close>
  infers from their number is \<open>n\<close>: a spectrum whose length is not a power of two never
  reaches the inference.
\<close>

theorem particle_count_consistency:
  assumes "eigh_contract Hm (eigh Hm)" and "1 \<le> n" and "is_mat N N Hm"
  shows "case Model_init eigh Hm n of
           Inl e \<Rightarrow> e = ValueError \<and> N \<noteq> 2 ^ nat n
         | Inr m \<Rightarrow> N = 2 ^ nat n \<and> length (energies m) = 2 ^ nat n \<and>
                    log 2 (real (length (energies m))) = real_of_int n \<and>
                    print_details_particle_count m = Inr n"
proof -
  have k: "nat n - 1 = nat (n - 1)" and sk: "Suc (nat (n - 1)) = nat n" using assms(2) by simp_all
  have N: "nrows Hm = N" using assms(3) by (rule is_mat_nrows)
  obtain es Mv where e: "eigh Hm = Inr (es, Mv)" and les: "length es = N"
    and Mv: "is_mat N N Mv"
    using eigh_contract_square[OF assms(1)] assms(3) N by metis
  show ?thesis
  proof (cases "N = 2 ^ nat n")
    case False
    then show ?thesis
      using Model_init_mismatch[of eigh Hm es Mv N n, OF e Mv] by (simp add: sk)
  next
    case True
    have Mv': "is_mat (2 ^ Suc (nat (n - 1))) (2 ^ Suc (nat (n - 1))) Mv"
      using Mv True by (simp add: sk)
    have "log 2 (real (2 ^ nat n)) = real (nat n)" by simp
    then have ex: "log 2 (real (2 ^ nat n)) = real_of_int n" using assms(2) by simp
    have "\<lfloor>log 2 (real (2 ^ nat n))\<rfloor> = int (nat n)" by (rule floor_log2_power)
    then have "\<lfloor>log 2 (real (2 ^ nat n))\<rfloor> = n" using assms(2) by simp
    then show ?thesis
      using True les ex
      by (simp add: Model_init_ok[of eigh Hm es Mv "nat (n - 1)" n, OF e Mv' refl]
          print_details_particle_count_def Let_def del: of_nat_power)
  qed
qed

theorem particle_count_consistency_witness:
  "eigh_contract H_ex (eigh_ex H_ex) \<and> is_mat 2 2 H_ex \<and>
   Model_init eigh_ex H_ex 1 = Inr model_ex \<and>
   length (energies model_ex) = 2 \<and> log 2 (real (length (energies model_ex))) = 1 \<and>
   print_details_particle_count model_ex = Inr 1 \<and>
   Model_init eigh_ex H_ex 2 = Inl ValueError"
proof -
  have sq: "is_mat 2 2 H_ex" by (simp add: is_mat_def H_ex_def)
  have one: "(1::int) \<le> 1" and two: "(1::int) \<le> 2" by simp_all
  show ?thesis
    using particle_count_consistency[of H_ex eigh_ex 1 2, OF eigh_ex_contract one sq]
      particle_count_consistency[of H_ex eigh_ex 2 2, OF eigh_ex_contract two sq]
      Model_init_ex[of H_ex] eigh_ex_contract sq
    by (auto split: sum.splits)
qed

end
